theory Spec2Isabelle
  imports Main "HOL-Library.Multiset"
begin

section \<open>JavaScript string primitives\<close>

text \<open>
  Text is modelled as \<^typ>\<open>string\<close>, one \<^typ>\<open>char\<close> per character of the
  ASCII text the parser is written for.  The white space of \<open>\s\<close> and of
  \<open>trim()\<close> is the ASCII white space; the line terminators that \<open>.\<close> refuses
  and that the \<open>m\<close> flag recognises are line feed and carriage return;
  \<open>toLowerCase()\<close> maps the letters \<open>A\<close> to \<open>Z\<close> and leaves every other
  character as it is.
\<close>

definition isWhiteSpace :: "char \<Rightarrow> bool" where
  "isWhiteSpace c =
     (c = CHR '' '' \<or> c = CHR 0x09 \<or> c = CHR 0x0A \<or> c = CHR 0x0B \<or> c = CHR 0x0C \<or> c = CHR 0x0D)"

definition isLineTerminator :: "char \<Rightarrow> bool" where
  "isLineTerminator c = (c = CHR 0x0A \<or> c = CHR 0x0D)"

definition trim :: "string \<Rightarrow> string" where
  "trim s = rev (dropWhile isWhiteSpace (rev (dropWhile isWhiteSpace s)))"

definition startsWith :: "string \<Rightarrow> string \<Rightarrow> bool" where
  "startsWith s p = (take (length p) s = p)"

fun str_includes :: "string \<Rightarrow> string \<Rightarrow> bool" where
  "str_includes [] sub = (sub = [])"
| "str_includes (c # cs) sub = (startsWith (c # cs) sub \<or> str_includes cs sub)"

definition toLowerChar :: "char \<Rightarrow> char" where
  "toLowerChar c =
     (case map_of (zip ''ABCDEFGHIJKLMNOPQRSTUVWXYZ'' ''abcdefghijklmnopqrstuvwxyz'') c of
        Some l \<Rightarrow> l
      | None \<Rightarrow> c)"

definition toLowerCase :: "string \<Rightarrow> string" where
  "toLowerCase s = map toLowerChar s"

text \<open>\<open>s.split(c)\<close> for a separator of one character.\<close>

fun split_char :: "char \<Rightarrow> string \<Rightarrow> string \<Rightarrow> string list" where
  "split_char sep cur [] = [rev cur]"
| "split_char sep cur (c # cs) =
     (if c = sep then rev cur # split_char sep [] cs else split_char sep (c # cur) cs)"

definition str_split :: "string \<Rightarrow> char \<Rightarrow> string list" where
  "str_split s sep = split_char sep [] s"

section \<open>Regular expressions with backtracking\<close>

text \<open>
  The patterns of the source are written as terms: a character class is a list of atoms
  (a literal, a range, \<open>\s\<close>, \<open>\d\<close>), possibly negated; \<open>AnyChar\<close> is
  \<open>.\<close>; \<open>Bol\<close> is \<open>^\<close> under the \<open>m\<close> flag; \<open>Star\<close> and \<open>Plus\<close> are the
  greedy \<open>*\<close> and \<open>+\<close>, \<open>LazyPlus\<close> is \<open>+?\<close>, \<open>Times n\<close> is \<open>{n}\<close>, and
  \<open>Group i\<close> is the \<open>i\<close>-th capturing group.
\<close>

datatype atom = Lit char | Range char char | WSpace | Digit

fun atom_ok :: "atom \<Rightarrow> char \<Rightarrow> bool" where
  "atom_ok (Lit a) c = (c = a)"
| "atom_ok (Range lo hi) c = (of_char lo \<le> (of_char c :: nat) \<and> (of_char c :: nat) \<le> of_char hi)"
| "atom_ok WSpace c = isWhiteSpace c"
| "atom_ok Digit c = (of_char CHR ''0'' \<le> (of_char c :: nat) \<and> (of_char c :: nat) \<le> of_char CHR ''9'')"

datatype regex =
    Eps
  | One "atom list"
  | NoneOf "atom list"
  | AnyChar
  | Bol
  | Seq regex regex
  | Alt regex regex
  | Star regex
  | Plus regex
  | LazyPlus regex
  | Times nat regex
  | Group nat regex

datatype mstate = MState (rest: string) (prev: "char option") (caps: "(nat \<times> string) list")

fun step :: "(char \<Rightarrow> bool) \<Rightarrow> mstate \<Rightarrow> mstate list" where
  "step p (MState [] pv cs) = []"
| "step p (MState (c # r) pv cs) = (if p c then [MState r (Some c) cs] else [])"

definition progress :: "mstate \<Rightarrow> mstate \<Rightarrow> bool" where
  "progress s s' = (length (rest s') < length (rest s))"

fun repeat_greedy :: "(mstate \<Rightarrow> mstate list) \<Rightarrow> nat \<Rightarrow> mstate \<Rightarrow> mstate list" where
  "repeat_greedy f 0 s = [s]"
| "repeat_greedy f (Suc n) s =
     concat (map (repeat_greedy f n) (filter (progress s) (f s))) @ [s]"

fun repeat_lazy :: "(mstate \<Rightarrow> mstate list) \<Rightarrow> nat \<Rightarrow> mstate \<Rightarrow> mstate list" where
  "repeat_lazy f 0 s = [s]"
| "repeat_lazy f (Suc n) s =
     s # concat (map (repeat_lazy f n) (filter (progress s) (f s)))"

fun repeat_times :: "(mstate \<Rightarrow> mstate list) \<Rightarrow> nat \<Rightarrow> mstate \<Rightarrow> mstate list" where
  "repeat_times f 0 s = [s]"
| "repeat_times f (Suc n) s = concat (map (repeat_times f n) (f s))"

definition set_cap :: "nat \<Rightarrow> mstate \<Rightarrow> mstate \<Rightarrow> mstate" where
  "set_cap i s s' =
     MState (rest s') (prev s')
       ((i, take (length (rest s) - length (rest s')) (rest s)) # caps s')"

primrec ms :: "regex \<Rightarrow> mstate \<Rightarrow> mstate list" where
  "ms Eps s = [s]"
| "ms (One as) s = step (\<lambda>c. list_ex (\<lambda>a. atom_ok a c) as) s"
| "ms (NoneOf as) s = step (\<lambda>c. \<not> list_ex (\<lambda>a. atom_ok a c) as) s"
| "ms AnyChar s = step (\<lambda>c. \<not> isLineTerminator c) s"
| "ms Bol s = (case prev s of None \<Rightarrow> [s] | Some c \<Rightarrow> if isLineTerminator c then [s] else [])"
| "ms (Seq a b) s = concat (map (ms b) (ms a s))"
| "ms (Alt a b) s = ms a s @ ms b s"
| "ms (Star r) s = repeat_greedy (ms r) (length (rest s)) s"
| "ms (Plus r) s = concat (map (\<lambda>s'. repeat_greedy (ms r) (length (rest s')) s') (ms r s))"
| "ms (LazyPlus r) s = concat (map (\<lambda>s'. repeat_lazy (ms r) (length (rest s')) s') (ms r s))"
| "ms (Times n r) s = repeat_times (ms r) n s"
| "ms (Group i r) s = map (set_cap i s) (ms r s)"

text \<open>
  \<open>ms r s\<close> lists, in the order a backtracking matcher tries them, the states in which
  \<open>r\<close> can stop when started in \<open>s\<close>; the head of the list is the match that
  JavaScript reports.  A quantifier iterates at most once per remaining character, since
  an iteration that consumes nothing is refused.
\<close>

definition exec :: "regex \<Rightarrow> mstate \<Rightarrow> mstate option" where
  "exec r s = (case ms r s of [] \<Rightarrow> None | s' # _ \<Rightarrow> Some s')"

text \<open>The leftmost match: the skipped prefix and the state after the match.\<close>

fun search :: "regex \<Rightarrow> char option \<Rightarrow> string \<Rightarrow> (string \<times> mstate) option" where
  "search r pv [] = map_option (Pair []) (exec r (MState [] pv []))"
| "search r pv (c # cs) =
     (case exec r (MState (c # cs) pv []) of
        Some st \<Rightarrow> Some ([], st)
      | None \<Rightarrow> map_option (\<lambda>(b, st). (c # b, st)) (search r (Some c) cs))"

text \<open>
  \<open>s.match(r)\<close> without the \<open>g\<close> flag: \<open>None\<close> is \<open>null\<close>; otherwise index 0 holds
  the matched text and index \<open>i\<close> the text of group \<open>i\<close>, absent (\<open>undefined\<close>) when
  the group took no part in the match.
\<close>

type_synonym match_result = "(nat \<times> string) list"

definition str_match :: "string \<Rightarrow> regex \<Rightarrow> match_result option" where
  "str_match s r =
     (case search r None s of
        None \<Rightarrow> None
      | Some (b, st) \<Rightarrow>
          Some ((0, take (length s - length b - length (rest st)) (drop (length b) s)) # caps st))"

definition grp :: "match_result \<Rightarrow> nat \<Rightarrow> string option" where
  "grp m i = map_of m i"

definition regex_test :: "regex \<Rightarrow> string \<Rightarrow> bool" where
  "regex_test r s = (search r None s \<noteq> None)"

text \<open>
  \<open>s.replace(r, f)\<close> with the \<open>g\<close> flag: every match, from left to right, is
  replaced; after an empty match the scan moves on by one character.
\<close>

function replace_loop :: "regex \<Rightarrow> (match_result \<Rightarrow> string) \<Rightarrow> char option \<Rightarrow> string \<Rightarrow> string" where
  "replace_loop r f pv [] =
     (case exec r (MState [] pv []) of None \<Rightarrow> [] | Some st \<Rightarrow> f (caps st))"
| "replace_loop r f pv (c # cs) =
     (case exec r (MState (c # cs) pv []) of
        None \<Rightarrow> c # replace_loop r f (Some c) cs
      | Some st \<Rightarrow>
          if length (rest st) \<le> length cs
          then f (caps st) @ replace_loop r f (prev st) (rest st)
          else f (caps st) @ c # replace_loop r f (Some c) cs)"
  by pat_completeness auto
termination
  by (relation "measure (\<lambda>(r, f, pv, s). length s)") auto

definition replace_all :: "string \<Rightarrow> regex \<Rightarrow> (match_result \<Rightarrow> string) \<Rightarrow> string" where
  "replace_all s r f = replace_loop r f None s"

text \<open>The replacement pattern \<open>$i\<close>: the text of group \<open>i\<close>, empty when absent.\<close>

definition dollar :: "nat \<Rightarrow> match_result \<Rightarrow> string" where
  "dollar i m = (case grp m i of None \<Rightarrow> [] | Some t \<Rightarrow> t)"

text \<open>
  \<open>s.split(r)\<close> for a pattern without groups: the pattern is tried at each position
  \<open>q\<close>; a match that ends where the current piece began is passed over.
\<close>

function split_loop :: "regex \<Rightarrow> char option \<Rightarrow> string \<Rightarrow> string \<Rightarrow> string list" where
  "split_loop r pv cur [] = [rev cur]"
| "split_loop r pv cur (c # cs) =
     (case exec r (MState (c # cs) pv []) of
        None \<Rightarrow> split_loop r (Some c) (c # cur) cs
      | Some st \<Rightarrow>
          if length (rest st) \<le> length cs
          then rev cur # split_loop r (prev st) [] (rest st)
          else if cur = [] then split_loop r (Some c) [c] cs
          else rev cur # split_loop r (Some c) [c] cs)"
  by pat_completeness auto
termination
  by (relation "measure (\<lambda>(r, pv, cur, s). length s)") auto

definition regex_split :: "string \<Rightarrow> regex \<Rightarrow> string list" where
  "regex_split s r =
     (if s = [] then (case exec r (MState [] None []) of None \<Rightarrow> [[]] | Some _ \<Rightarrow> [])
      else split_loop r None [] s)"

text \<open>Building blocks for writing the source's patterns.\<close>

definition lits :: "string \<Rightarrow> regex" where
  "lits s = foldr (\<lambda>c r. Seq (One [Lit c]) r) s Eps"

definition seqs :: "regex list \<Rightarrow> regex" where
  "seqs rs = foldr Seq rs Eps"

abbreviation ws :: regex where "ws \<equiv> One [WSpace]"
abbreviation upper :: regex where "upper \<equiv> One [Range CHR ''A'' CHR ''Z'']"
abbreviation lower :: regex where "lower \<equiv> One [Range CHR ''a'' CHR ''z'']"
abbreviation digit :: regex where "digit \<equiv> One [Digit]"

section \<open>The patterns of the free-text parser\<close>

text \<open>\<^verbatim>\<open>/^## /m\<close>\<close>
definition re_section :: regex where
  "re_section = seqs [Bol, lits ''## '']"

text \<open>\<^verbatim>\<open>/###\s*(.+?)\s+at\s+(.+)/\<close>\<close>
definition re_edu :: regex where
  "re_edu = seqs [lits ''###'', Star ws, Group 1 (LazyPlus AnyChar), Plus ws, lits ''at'',
                  Plus ws, Group 2 (Plus AnyChar)]"

text \<open>\<^verbatim>\<open>/\[([^\]]+)\]<web_link>/g\<close>\<close>
definition re_link :: regex where
  "re_link = seqs [lits ''['', Group 1 (Plus (NoneOf [Lit CHR '']''])), lits '']<web_link>'']"

text \<open>\<^verbatim>\<open>/\n###\s+/\<close>\<close>
definition re_block :: regex where
  "re_block = seqs [One [Lit CHR 0x0A], lits ''###'', Plus ws]"

text \<open>\<^verbatim>\<open>/(.+?)\s+at\s+\[(.+?)\]/\<close>\<close>
definition re_title :: regex where
  "re_title = seqs [Group 1 (LazyPlus AnyChar), Plus ws, lits ''at'', Plus ws, lits ''['',
                    Group 2 (LazyPlus AnyChar), lits '']'']"

text \<open>\<^verbatim>\<open>/<web_link>/g\<close>\<close>
definition re_weblink :: regex where
  "re_weblink = lits ''<web_link>''"

text \<open>\<^verbatim>\<open>/(.+?)\s+at\s+([^(\n]+)/\<close>\<close>
definition re_simple :: regex where
  "re_simple = seqs [Group 1 (LazyPlus AnyChar), Plus ws, lits ''at'', Plus ws,
                     Group 2 (Plus (NoneOf [Lit CHR ''('', Lit CHR 0x0A]))]"

text \<open>\<^verbatim>\<open>/[A-Z][a-z]+\s+\d{4}\s*-\s*(Present|[A-Z][a-z]+\s+\d{4})/\<close>\<close>
definition re_date_test :: regex where
  "re_date_test = seqs [upper, Plus lower, Plus ws, Times 4 digit, Star ws, lits ''-'', Star ws,
                        Group 1 (Alt (lits ''Present'')
                                     (seqs [upper, Plus lower, Plus ws, Times 4 digit]))]"

text \<open>\<^verbatim>\<open>/([A-Z][a-z]+)\s+(\d{4})\s*-\s*(Present|([A-Z][a-z]+)\s+(\d{4}))/\<close>\<close>
definition re_date :: regex where
  "re_date = seqs [Group 1 (Seq upper (Plus lower)), Plus ws, Group 2 (Times 4 digit), Star ws,
                   lits ''-'', Star ws,
                   Group 3 (Alt (lits ''Present'')
                                (seqs [Group 4 (Seq upper (Plus lower)), Plus ws,
                                       Group 5 (Times 4 digit)]))]"


subsection \<open>Invariants of matching\<close>

text \<open>
  \<open>bound r\<close> are the groups that take part in every match of \<open>r\<close>.  \<open>ext B s s'\<close>
  relates a state to a later one: the later input is what is left of the earlier one, the
  character before it is the last one consumed, and the later captures hold every
  earlier group and the groups \<open>B\<close>.
\<close>

primrec bound :: "regex \<Rightarrow> nat set" where
  "bound Eps = {}"
| "bound (One as) = {}"
| "bound (NoneOf as) = {}"
| "bound AnyChar = {}"
| "bound Bol = {}"
| "bound (Seq a b) = bound a \<union> bound b"
| "bound (Alt a b) = bound a \<inter> bound b"
| "bound (Star r) = {}"
| "bound (Plus r) = bound r"
| "bound (LazyPlus r) = bound r"
| "bound (Times n r) = (if n = 0 then {} else bound r)"
| "bound (Group i r) = insert i (bound r)"

definition ext :: "nat set \<Rightarrow> mstate \<Rightarrow> mstate \<Rightarrow> bool" where
  "ext B s s' =
     ((\<exists>u. rest s = u @ rest s' \<and> prev s' = (if u = [] then prev s else Some (last u)))
      \<and> fst ` set (caps s) \<union> B \<subseteq> fst ` set (caps s'))"

section \<open>Data model\<close>

text \<open>
  The interfaces \<open>Education\<close> and \<open>Experience\<close>; \<open>None\<close> is \<open>null\<close>, and
  for a number also \<open>NaN\<close>, which the JSON response writes as \<open>null\<close>.
\<close>

record Education =
  school :: "string option"
  degree :: "string option"
  field :: "string option"
  edu_start :: "int option"
  edu_end :: "int option"

record Experience =
  company :: "string option"
  title :: "string option"
  exp_start :: "int option"
  exp_end :: "int option"
  current :: bool

text \<open>A \<open>{year?, month?}\<close> object, as in \<open>TimePeriod\<close> and in \<open>position_start\<close>.\<close>

record DateObj =
  year :: "int option"
  month :: "int option"

text \<open>
  Reading a property of \<open>undefined\<close> throws a \<open>TypeError\<close>; it is the only exception
  the parsing code itself could raise.
\<close>

datatype error = TypeError

text \<open>\<open>g.trim()\<close> for a capture group \<open>g\<close> that may be \<open>undefined\<close>.\<close>

definition trim_group :: "string option \<Rightarrow> error + string" where
  "trim_group g = (case g of None \<Rightarrow> Inl TypeError | Some t \<Rightarrow> Inr (trim t))"

text \<open>
  \<open>parseInt(s, 10)\<close>: leading white space and a sign are passed over and the longest
  run of digits is read; \<open>None\<close> is \<open>NaN\<close>.
\<close>

definition digit_value :: "char \<Rightarrow> int option" where
  "digit_value c = map_of (zip ''0123456789'' [0, 1, 2, 3, 4, 5, 6, 7, 8, 9]) c"

definition digits_value :: "string \<Rightarrow> int" where
  "digits_value ds = foldl (\<lambda>n c. 10 * n + (case digit_value c of Some d \<Rightarrow> d | None \<Rightarrow> 0)) 0 ds"

definition parseInt :: "string \<Rightarrow> int option" where
  "parseInt s =
     (let t = dropWhile isWhiteSpace s;
          neg = (take 1 t = ''-'');
          u = (if take 1 t = ''-'' \<or> take 1 t = ''+'' then drop 1 t else t);
          ds = takeWhile (\<lambda>c. digit_value c \<noteq> None) u
      in if ds = [] then None
         else Some (if neg then - digits_value ds else digits_value ds))"

text \<open>JavaScript truthiness: \<open>!n\<close> for a number or \<open>null\<close>, \<open>!s\<close> for a string or \<open>null\<close>.\<close>

definition falsy_num :: "int option \<Rightarrow> bool" where
  "falsy_num n = (n = None \<or> n = Some 0)"

definition falsy_str :: "string option \<Rightarrow> bool" where
  "falsy_str s = (s = None \<or> s = Some [])"

definition or_empty :: "string option \<Rightarrow> string" where
  "or_empty s = (case s of None \<Rightarrow> [] | Some t \<Rightarrow> t)"

section \<open>The free-text parser of \<open>getProfileWithExa\<close>\<close>

subsection \<open>Sections\<close>

definition sections_of :: "string \<Rightarrow> string list" where
  "sections_of text = regex_split text re_section"

text \<open>\<open>sections.find(s => s.startsWith(name)) || ''\<close>\<close>

definition find_section :: "string \<Rightarrow> string list \<Rightarrow> string" where
  "find_section name sections =
     (case List.find (\<lambda>s. startsWith s name) sections of None \<Rightarrow> [] | Some s \<Rightarrow> s)"

subsection \<open>Education lines\<close>

definition eduLines :: "string \<Rightarrow> string list" where
  "eduLines educationSection =
     filter (\<lambda>l. startsWith (trim l) ''###'') (str_split educationSection CHR 0x0A)"

text \<open>One pass of the loop over \<open>eduLines\<close>: the entry pushed, if any.\<close>

definition parse_edu_line :: "string \<Rightarrow> error + Education option" where
  "parse_edu_line line =
     (case str_match line re_edu of
        None \<Rightarrow> Inr None
      | Some m \<Rightarrow>
          (case trim_group (grp m 1) of
             Inl e \<Rightarrow> Inl e
           | Inr degree' \<Rightarrow>
               (case trim_group (grp m 2) of
                  Inl e \<Rightarrow> Inl e
                | Inr school0 \<Rightarrow>
                    Inr (Some \<lparr>school = Some (replace_all school0 re_link (dollar 1)),
                               degree = Some degree', field = None,
                               edu_start = None, edu_end = None\<rparr>))))"

fun parse_edu_lines :: "string list \<Rightarrow> Education list \<Rightarrow> error + Education list" where
  "parse_edu_lines [] education = Inr education"
| "parse_edu_lines (line # ls) education =
     (case parse_edu_line line of
        Inl e \<Rightarrow> Inl e
      | Inr None \<Rightarrow> parse_edu_lines ls education
      | Inr (Some edu) \<Rightarrow> parse_edu_lines ls (education @ [edu]))"

definition parse_education :: "string \<Rightarrow> error + Education list" where
  "parse_education text =
     parse_edu_lines (eduLines (find_section ''Education'' (sections_of text))) []"

subsection \<open>Experience blocks\<close>

definition expBlocks :: "string \<Rightarrow> string list" where
  "expBlocks experienceSection =
     filter (\<lambda>b. trim b \<noteq> [] \<and> \<not> startsWith b ''Experience'')
       (regex_split experienceSection re_block)"

definition block_lines :: "string \<Rightarrow> string list" where
  "block_lines block = filter (\<lambda>l. trim l \<noteq> []) (str_split block CHR 0x0A)"

text \<open>
  Title and company from the first line: the bracketed form first, then the plain one;
  \<open>Inr None\<close> is the \<open>continue\<close> taken when neither matches.
\<close>

definition title_company :: "string \<Rightarrow> error + (string \<times> string) option" where
  "title_company firstLine =
     (case str_match firstLine re_title of
        Some titleMatch \<Rightarrow>
          (case trim_group (grp titleMatch 1) of
             Inl e \<Rightarrow> Inl e
           | Inr title' \<Rightarrow>
               (case trim_group (grp titleMatch 2) of
                  Inl e \<Rightarrow> Inl e
                | Inr company' \<Rightarrow>
                    Inr (Some (title', replace_all company' re_weblink (\<lambda>_. [])))))
      | None \<Rightarrow>
          (case str_match firstLine re_simple of
             None \<Rightarrow> Inr None
           | Some simpleMatch \<Rightarrow>
               (case trim_group (grp simpleMatch 1) of
                  Inl e \<Rightarrow> Inl e
                | Inr title' \<Rightarrow>
                    (case trim_group (grp simpleMatch 2) of
                       Inl e \<Rightarrow> Inl e
                     | Inr company' \<Rightarrow> Inr (Some (title', company'))))))"

definition monthMap :: "string \<Rightarrow> int option" where
  "monthMap = map_of
     [(''Jan'', 1), (''Feb'', 2), (''Mar'', 3), (''Apr'', 4), (''May'', 5), (''Jun'', 6),
      (''Jul'', 7), (''Aug'', 8), (''Sep'', 9), (''Oct'', 10), (''Nov'', 11), (''Dec'', 12)]"

text \<open>\<open>lines.find(l => /.../.test(l))\<close>\<close>

definition find_date_line :: "string list \<Rightarrow> string option" where
  "find_date_line lines = List.find (regex_test re_date_test) lines"

text \<open>
  What a date match yields: the entry's years and flag, and the start month by name.
  \<open>isCurrent\<close> is the \<open>(Current)\<close> marker of the first line.
\<close>

definition endYear_of :: "match_result \<Rightarrow> int option" where
  "endYear_of dateMatch =
     (if grp dateMatch 3 = Some ''Present'' then None
      else (case grp dateMatch 5 of
              None \<Rightarrow> None
            | Some t \<Rightarrow> if t = [] then None else parseInt t))"

definition isActuallyCurrent :: "bool \<Rightarrow> match_result \<Rightarrow> bool" where
  "isActuallyCurrent isCurrent dateMatch =
     (isCurrent \<or> grp dateMatch 3 = Some ''Present'' \<or> falsy_num (endYear_of dateMatch))"

definition startYear_of :: "match_result \<Rightarrow> int option" where
  "startYear_of dateMatch = (case grp dateMatch 2 of None \<Rightarrow> None | Some t \<Rightarrow> parseInt t)"

definition startMonth_of :: "match_result \<Rightarrow> int option" where
  "startMonth_of dateMatch =
     (case grp dateMatch 1 of
        None \<Rightarrow> None
      | Some name \<Rightarrow> (case monthMap name of None \<Rightarrow> None | Some n \<Rightarrow> if n = 0 then None else Some n))"

text \<open>
  The body of the loop over \<open>expBlocks\<close> up to the \<open>push\<close>: the entry the block
  contributes and its start month, or \<open>Inr None\<close> when the block is passed over.
\<close>

definition block_entry :: "string \<Rightarrow> error + (Experience \<times> int option) option" where
  "block_entry block =
     (let lines = block_lines block in
      if length lines < 2 then Inr None
      else
        (case title_company (hd lines) of
           Inl e \<Rightarrow> Inl e
         | Inr None \<Rightarrow> Inr None
         | Inr (Some (title', company')) \<Rightarrow>
             (case find_date_line lines of
                None \<Rightarrow> Inr None
              | Some dateInfo \<Rightarrow>
                  if dateInfo = [] then Inr None
                  else
                    (case str_match dateInfo re_date of
                       None \<Rightarrow> Inr None
                     | Some dateMatch \<Rightarrow>
                         Inr (Some
                           (\<lparr>company = Some company', title = Some title',
                             exp_start = startYear_of dateMatch,
                             exp_end = endYear_of dateMatch,
                             current =
                               isActuallyCurrent (str_includes (hd lines) ''(Current)'') dateMatch\<rparr>,
                            startMonth_of dateMatch))))))"

record ExaState =
  experiences :: "Experience list"
  currentCompany :: "string option"
  currentPositionStart :: "DateObj option"

text \<open>The \<open>push\<close> and the \<open>if (isActuallyCurrent && !currentCompany)\<close> that follows it.\<close>

definition push_entry :: "Experience \<times> int option \<Rightarrow> ExaState \<Rightarrow> ExaState" where
  "push_entry em st =
     (let st' = st\<lparr>experiences := experiences st @ [fst em]\<rparr> in
      if current (fst em) \<and> falsy_str (currentCompany st)
      then st'\<lparr>currentCompany := company (fst em),
               currentPositionStart := Some \<lparr>year = exp_start (fst em), month = snd em\<rparr>\<rparr>
      else st')"

fun parse_blocks :: "string list \<Rightarrow> ExaState \<Rightarrow> error + ExaState" where
  "parse_blocks [] st = Inr st"
| "parse_blocks (block # bs) st =
     (case block_entry block of
        Inl e \<Rightarrow> Inl e
      | Inr None \<Rightarrow> parse_blocks bs st
      | Inr (Some em) \<Rightarrow> parse_blocks bs (push_entry em st))"

definition initial_state :: ExaState where
  "initial_state = \<lparr>experiences = [], currentCompany = None, currentPositionStart = None\<rparr>"

definition parse_experience :: "string \<Rightarrow> error + ExaState" where
  "parse_experience text =
     parse_blocks (expBlocks (find_section ''Experience'' (sections_of text))) initial_state"


section \<open>Education filter and ranking\<close>

text \<open>\<open>Array.prototype.sort(cmp)\<close> is stable; for a comparator that orders by a key its
  result is the stable sorted arrangement, computed here by insertion from the right.\<close>

fun insert_by :: "('a \<Rightarrow> 'a \<Rightarrow> int) \<Rightarrow> 'a \<Rightarrow> 'a list \<Rightarrow> 'a list" where
  "insert_by cmp x [] = [x]"
| "insert_by cmp x (y # ys) = (if cmp x y \<le> 0 then x # y # ys else y # insert_by cmp x ys)"

definition js_sort :: "('a \<Rightarrow> 'a \<Rightarrow> int) \<Rightarrow> 'a list \<Rightarrow> 'a list" where
  "js_sort cmp xs = foldr (insert_by cmp) xs []"

definition schoolWords :: "string list" where
  "schoolWords =
     [''high school'', ''secondary school'', ''preparatory'', ''prep school'', ''uwc '',
      ''uwc south'', ''uwc east'', ''international school'', ''sixth form'',
      ''college preparatory'']"

definition degreeWords :: "string list" where
  "degreeWords =
     [''high school'', ''ib diploma'', ''international baccalaureate'', ''a-level'', ''a level'',
      ''gcse'', ''o-level'', ''cbse'', ''icse'', ''grade 12'', ''secondary education'']"

text \<open>The placeholder degree, an em dash (U+2014), in UTF-8.\<close>

definition emdash :: string where
  "emdash = [CHR 0xE2, CHR 0x80, CHR 0x94]"

text \<open>\<open>isHighSchool\<close> of the \<open>/screen\<close> handler.\<close>

definition isHighSchool :: "Education \<Rightarrow> bool" where
  "isHighSchool edu =
     (let schoolName = toLowerCase (or_empty (school edu));
          degreeName = toLowerCase (or_empty (degree edu))
      in if list_ex (str_includes schoolName) schoolWords then True
         else if list_ex (str_includes degreeName) degreeWords
                 \<or> degreeName = emdash \<or> degreeName = [] then True
         else False)"

text \<open>\<open>isHighSchool\<close> of \<open>getProfileWithExa\<close>, which knows two more degree words.\<close>

definition isHighSchool_exa :: "Education \<Rightarrow> bool" where
  "isHighSchool_exa edu =
     (let schoolName = toLowerCase (or_empty (school edu));
          degreeName = toLowerCase (or_empty (degree edu))
      in if list_ex (str_includes schoolName) schoolWords then True
         else if list_ex (str_includes degreeName) (degreeWords @ [''noc '', ''batch ''])
                 \<or> degreeName = emdash \<or> degreeName = [] then True
         else False)"

text \<open>\<open>getEducationRank\<close>, the same in both places but for the \<open>isHighSchool\<close> it calls.\<close>

definition rank_with :: "(Education \<Rightarrow> bool) \<Rightarrow> Education \<Rightarrow> int" where
  "rank_with hs edu =
     (let degreeName = toLowerCase (or_empty (degree edu)) in
      if str_includes degreeName ''phd'' \<or> str_includes degreeName ''ph.d''
         \<or> str_includes degreeName ''doctorate'' then 5
      else if str_includes degreeName ''master'' \<or> str_includes degreeName ''mba''
         \<or> str_includes degreeName ''ms'' \<or> str_includes degreeName ''ma'' then 4
      else if str_includes degreeName ''bachelor'' \<or> str_includes degreeName ''bs''
         \<or> str_includes degreeName ''ba'' \<or> str_includes degreeName ''b.tech''
         \<or> str_includes degreeName ''btech'' then 3
      else if str_includes degreeName ''associate'' \<or> str_includes degreeName ''diploma'' then 2
      else if hs edu then 0
      else 1)"

definition getEducationRank :: "Education \<Rightarrow> int" where
  "getEducationRank = rank_with isHighSchool"

definition getEducationRank_exa :: "Education \<Rightarrow> int" where
  "getEducationRank_exa = rank_with isHighSchool_exa"

text \<open>\<open>/screen\<close>: \<open>collegeEducation\<close>, the choice between it and \<open>allEducation\<close>, the sort.\<close>

definition collegeEducation :: "Education list \<Rightarrow> Education list" where
  "collegeEducation allEducation = filter (\<lambda>edu. \<not> isHighSchool edu) allEducation"

definition filter_education :: "Education list \<Rightarrow> Education list" where
  "filter_education allEducation =
     (if length (collegeEducation allEducation) > 0 then collegeEducation allEducation
      else allEducation)"

definition rank_education :: "Education list \<Rightarrow> Education list" where
  "rank_education education = js_sort (\<lambda>a b. getEducationRank b - getEducationRank a) education"

definition screen_education :: "Education list \<Rightarrow> Education list" where
  "screen_education allEducation = rank_education (filter_education allEducation)"

text \<open>\<open>getProfileWithExa\<close>: the same steps on the parsed lines.\<close>

definition filteredEducation :: "Education list \<Rightarrow> Education list" where
  "filteredEducation education =
     js_sort (\<lambda>a b. getEducationRank_exa b - getEducationRank_exa a)
       (if length (filter (\<lambda>edu. \<not> isHighSchool_exa edu) education) > 0
        then filter (\<lambda>edu. \<not> isHighSchool_exa edu) education
        else education)"

text \<open>
  The part of the response of \<open>getProfileWithExa\<close> that is parsed from the text:
  \<open>education\<close>, \<open>experiences\<close>, and the name and \<open>position_start\<close> of
  \<open>current_company\<close>.
\<close>

record ExaProfile =
  education :: "Education list"
  exa_experiences :: "Experience list"
  current_company_name :: "string option"
  position_start :: "DateObj option"

definition exa_profile :: "string \<Rightarrow> error + ExaProfile" where
  "exa_profile text =
     (case parse_education text of
        Inl e \<Rightarrow> Inl e
      | Inr edu \<Rightarrow>
          (case parse_experience text of
             Inl e \<Rightarrow> Inl e
           | Inr st \<Rightarrow>
               Inr \<lparr>education = filteredEducation edu,
                    exa_experiences = experiences st,
                    current_company_name = currentCompany st,
                    position_start = currentPositionStart st\<rparr>))"

section \<open>The structured source: the \<open>/screen\<close> handler\<close>

record TimePeriod =
  startDate :: "DateObj option"
  endDate :: "DateObj option"
  tp_start :: "DateObj option"
  tp_end :: "DateObj option"

record Company =
  universalName :: "string option"
  miniCompany_universalName :: "string option"

record LinkedInPosition =
  companyName :: "string option"
  pos_title :: "string option"
  timePeriod :: "TimePeriod option"
  dateRange :: "TimePeriod option"
  pos_company :: "Company option"

text \<open>\<open>a ?? b\<close> and \<open>d?.year\<close>.\<close>

definition nullish :: "'a option \<Rightarrow> 'a option \<Rightarrow> 'a option" where
  "nullish a b = (case a of None \<Rightarrow> b | Some x \<Rightarrow> Some x)"

definition year_of :: "DateObj option \<Rightarrow> int option" where
  "year_of d = (case d of None \<Rightarrow> None | Some dt \<Rightarrow> year dt)"

text \<open>\<open>entry.timePeriod ?? entry.dateRange ?? {}\<close>\<close>

definition period_of :: "LinkedInPosition \<Rightarrow> TimePeriod" where
  "period_of entry =
     (case nullish (timePeriod entry) (dateRange entry) of
        None \<Rightarrow> \<lparr>startDate = None, endDate = None, tp_start = None, tp_end = None\<rparr>
      | Some tp \<Rightarrow> tp)"

record Dates =
  startYear :: "int option"
  endYear :: "int option"
  isCurrent :: bool

definition parseDates :: "LinkedInPosition \<Rightarrow> Dates" where
  "parseDates entry =
     (let tp = period_of entry in
      \<lparr>startYear = nullish (year_of (startDate tp)) (year_of (tp_start tp)),
       endYear = nullish (year_of (endDate tp)) (year_of (tp_end tp)),
       isCurrent = (endDate tp = None \<and> tp_end tp = None)\<rparr>)"

record ScreenState =
  sc_experiences :: "Experience list"
  sc_currentCompany :: "string option"
  currentCompanyUniversalName :: "string option"
  sc_currentPositionStart :: "DateObj option"

text \<open>One pass of the loop over \<open>positions\<close>.\<close>

definition screen_position :: "LinkedInPosition \<Rightarrow> ScreenState \<Rightarrow> ScreenState" where
  "screen_position exp st =
     (let d = parseDates exp;
          tp = period_of exp;
          st' = st\<lparr>sc_experiences := sc_experiences st @
                  [\<lparr>company = companyName exp, title = pos_title exp,
                    exp_start = startYear d,
                    exp_end = (if isCurrent d then None else endYear d),
                    current = isCurrent d\<rparr>]\<rparr>
      in if isCurrent d \<and> falsy_str (sc_currentCompany st)
         then st'\<lparr>sc_currentCompany := companyName exp,
                  currentCompanyUniversalName :=
                    (case pos_company exp of
                       None \<Rightarrow> None
                     | Some c \<Rightarrow> nullish (universalName c) (miniCompany_universalName c)),
                  sc_currentPositionStart := nullish (startDate tp) (tp_start tp)\<rparr>
         else st')"

fun screen_positions :: "LinkedInPosition list \<Rightarrow> ScreenState \<Rightarrow> ScreenState" where
  "screen_positions [] st = st"
| "screen_positions (exp # positions) st = screen_positions positions (screen_position exp st)"

definition screen_initial :: ScreenState where
  "screen_initial =
     \<lparr>sc_experiences = [], sc_currentCompany = None, currentCompanyUniversalName = None,
      sc_currentPositionStart = None\<rparr>"

section \<open>The command-line tool\<close>

text \<open>\<open>experiences.find((e) => !e.timePeriod?.endDate)\<close>\<close>

definition cli_current :: "LinkedInPosition list \<Rightarrow> LinkedInPosition option" where
  "cli_current exps =
     List.find (\<lambda>e. (case timePeriod e of None \<Rightarrow> True | Some tp \<Rightarrow> endDate tp = None)) exps"


section \<open>The bound on iterations is never reached\<close>

text \<open>
  A quantifier is run with as many iterations allowed as characters are left.  Allowing
  more changes nothing, since every iteration that counts consumes a character.
\<close>

lemma repeat_greedy_more:
  "length (rest s) \<le> n \<Longrightarrow> repeat_greedy f (Suc n) s = repeat_greedy f n s"
proof (induction n arbitrary: s)
  case 0
  then show ?case
    by (simp add: progress_def)
next
  case (Suc n)
  have "repeat_greedy f (Suc n) s' = repeat_greedy f n s'"
    if "s' \<in> set (filter (progress s) (f s))" for s'
    using that Suc.prems by (intro Suc.IH) (simp add: progress_def)
  then have eq: "map (repeat_greedy f (Suc n)) (filter (progress s) (f s))
      = map (repeat_greedy f n) (filter (progress s) (f s))"
    by (intro map_cong) simp_all
  have "repeat_greedy f (Suc (Suc n)) s
      = concat (map (repeat_greedy f (Suc n)) (filter (progress s) (f s))) @ [s]"
    by (rule repeat_greedy.simps(2))
  also have "\<dots> = concat (map (repeat_greedy f n) (filter (progress s) (f s))) @ [s]"
    by (simp only: eq)
  also have "\<dots> = repeat_greedy f (Suc n) s"
    by (rule repeat_greedy.simps(2) [symmetric])
  finally show ?case .
qed

lemma repeat_lazy_more:
  "length (rest s) \<le> n \<Longrightarrow> repeat_lazy f (Suc n) s = repeat_lazy f n s"
proof (induction n arbitrary: s)
  case 0
  then show ?case
    by (simp add: progress_def)
next
  case (Suc n)
  have "repeat_lazy f (Suc n) s' = repeat_lazy f n s'"
    if "s' \<in> set (filter (progress s) (f s))" for s'
    using that Suc.prems by (intro Suc.IH) (simp add: progress_def)
  then have eq: "map (repeat_lazy f (Suc n)) (filter (progress s) (f s))
      = map (repeat_lazy f n) (filter (progress s) (f s))"
    by (intro map_cong) simp_all
  have "repeat_lazy f (Suc (Suc n)) s
      = s # concat (map (repeat_lazy f (Suc n)) (filter (progress s) (f s)))"
    by (rule repeat_lazy.simps(2))
  also have "\<dots> = s # concat (map (repeat_lazy f n) (filter (progress s) (f s)))"
    by (simp only: eq)
  also have "\<dots> = repeat_lazy f (Suc n) s"
    by (rule repeat_lazy.simps(2) [symmetric])
  finally show ?case .
qed

lemma repeat_greedy_enough:
  "repeat_greedy f (length (rest s) + k) s = repeat_greedy f (length (rest s)) s"
proof (induction k)
  case 0
  show ?case by simp
next
  case (Suc k)
  have "repeat_greedy f (Suc (length (rest s) + k)) s = repeat_greedy f (length (rest s) + k) s"
    by (rule repeat_greedy_more) simp
  with Suc.IH show ?case
    by (simp only: add_Suc_right)
qed

lemma repeat_lazy_enough:
  "repeat_lazy f (length (rest s) + k) s = repeat_lazy f (length (rest s)) s"
proof (induction k)
  case 0
  show ?case by simp
next
  case (Suc k)
  have "repeat_lazy f (Suc (length (rest s) + k)) s = repeat_lazy f (length (rest s) + k) s"
    by (rule repeat_lazy_more) simp
  with Suc.IH show ?case
    by (simp only: add_Suc_right)
qed

section \<open>Every match extends the state it started from\<close>

lemma ext_refl: "ext {} s s"
  unfolding ext_def by (intro conjI exI [of _ "[]"]) simp_all

lemma ext_trans:
  assumes "ext A s s1" "ext B s1 s2"
  shows "ext (A \<union> B) s s2"
proof -
  from assms obtain u v where u: "rest s = u @ rest s1"
      "prev s1 = (if u = [] then prev s else Some (last u))"
    and v: "rest s1 = v @ rest s2" "prev s2 = (if v = [] then prev s1 else Some (last v))"
    unfolding ext_def by blast
  from u v have "rest s = (u @ v) @ rest s2
      \<and> prev s2 = (if u @ v = [] then prev s else Some (last (u @ v)))"
    by simp
  then have "\<exists>w. rest s = w @ rest s2 \<and> prev s2 = (if w = [] then prev s else Some (last w))"
    by blast
  moreover from assms have "fst ` set (caps s) \<union> (A \<union> B) \<subseteq> fst ` set (caps s2)"
    unfolding ext_def by blast
  ultimately show ?thesis
    unfolding ext_def by blast
qed

lemma ext_weaken: "ext A s s' \<Longrightarrow> B \<subseteq> A \<Longrightarrow> ext B s s'"
  unfolding ext_def by blast

lemma step_ext:
  assumes "s' \<in> set (step p s)"
  shows "ext {} s s'"
proof -
  from assms obtain c where "rest s = [c] @ rest s'" "prev s' = Some c" "caps s' = caps s"
    by (cases "(p, s)" rule: step.cases) (auto split: if_splits)
  then show ?thesis
    unfolding ext_def by (intro conjI exI [of _ "[c]"]) simp_all
qed

lemma repeat_greedy_ext:
  assumes f: "\<And>a b. b \<in> set (f a) \<Longrightarrow> ext {} a b"
  shows "s' \<in> set (repeat_greedy f n s) \<Longrightarrow> ext {} s s'"
proof (induction n arbitrary: s)
  case 0
  then show ?case by (simp add: ext_refl)
next
  case (Suc n)
  from Suc.prems consider "s' = s" | s1 where "s1 \<in> set (f s)" "s' \<in> set (repeat_greedy f n s1)"
    by auto
  then show ?case
  proof cases
    case 1
    then show ?thesis by (simp add: ext_refl)
  next
    case 2
    from ext_trans [OF f [OF 2(1)] Suc.IH [OF 2(2)]] show ?thesis by simp
  qed
qed

lemma repeat_lazy_ext:
  assumes f: "\<And>a b. b \<in> set (f a) \<Longrightarrow> ext {} a b"
  shows "s' \<in> set (repeat_lazy f n s) \<Longrightarrow> ext {} s s'"
proof (induction n arbitrary: s)
  case 0
  then show ?case by (simp add: ext_refl)
next
  case (Suc n)
  from Suc.prems consider "s' = s" | s1 where "s1 \<in> set (f s)" "s' \<in> set (repeat_lazy f n s1)"
    by auto
  then show ?case
  proof cases
    case 1
    then show ?thesis by (simp add: ext_refl)
  next
    case 2
    from ext_trans [OF f [OF 2(1)] Suc.IH [OF 2(2)]] show ?thesis by simp
  qed
qed

lemma repeat_times_ext:
  assumes f: "\<And>a b. b \<in> set (f a) \<Longrightarrow> ext B a b"
  shows "s' \<in> set (repeat_times f n s) \<Longrightarrow> ext (if n = 0 then {} else B) s s'"
proof (induction n arbitrary: s)
  case 0
  then show ?case by (simp add: ext_refl)
next
  case (Suc n)
  from Suc.prems obtain s1 where s1: "s1 \<in> set (f s)" "s' \<in> set (repeat_times f n s1)"
    by auto
  from ext_trans [OF f [OF s1(1)] Suc.IH [OF s1(2)]] show ?case
    by (simp split: if_splits)
qed

lemma set_cap_ext:
  assumes "ext B s s1"
  shows "ext (insert i B) s (set_cap i s s1)"
proof -
  have "rest (set_cap i s s1) = rest s1" "prev (set_cap i s s1) = prev s1"
    "fst ` set (caps (set_cap i s s1)) = insert i (fst ` set (caps s1))"
    by (simp_all add: set_cap_def)
  with assms show ?thesis
    unfolding ext_def by auto
qed

lemma ms_ext: "s' \<in> set (ms r s) \<Longrightarrow> ext (bound r) s s'"
proof (induction r arbitrary: s s')
  case Eps
  then show ?case by (simp add: ext_refl)
next
  case (One as)
  then show ?case by (simp add: step_ext)
next
  case (NoneOf as)
  then show ?case by (simp add: step_ext)
next
  case AnyChar
  then show ?case by (simp add: step_ext)
next
  case Bol
  then show ?case by (auto simp: ext_refl split: option.splits if_splits)
next
  case (Seq a b)
  from Seq.prems obtain s1 where "s1 \<in> set (ms a s)" "s' \<in> set (ms b s1)"
    by auto
  then show ?case
    using ext_trans [OF Seq.IH(1) Seq.IH(2)] by simp
next
  case (Alt a b)
  from Alt.prems have "s' \<in> set (ms a s) \<or> s' \<in> set (ms b s)"
    by auto
  then show ?case
    using Alt.IH ext_weaken [of "bound a" s s' "bound a \<inter> bound b"]
      ext_weaken [of "bound b" s s' "bound a \<inter> bound b"]
    by auto
next
  case (Star r)
  have "\<And>a b. b \<in> set (ms r a) \<Longrightarrow> ext {} a b"
    using Star.IH ext_weaken by blast
  from repeat_greedy_ext [of "ms r", OF this] Star.prems show ?case
    by simp
next
  case (Plus r)
  have f: "\<And>a b. b \<in> set (ms r a) \<Longrightarrow> ext {} a b"
    using Plus.IH ext_weaken by blast
  from Plus.prems obtain s1 where s1: "s1 \<in> set (ms r s)"
      "s' \<in> set (repeat_greedy (ms r) (length (rest s1)) s1)"
    by auto
  from ext_trans [OF Plus.IH [OF s1(1)] repeat_greedy_ext [of "ms r", OF f s1(2)]]
  show ?case by simp
next
  case (LazyPlus r)
  have f: "\<And>a b. b \<in> set (ms r a) \<Longrightarrow> ext {} a b"
    using LazyPlus.IH ext_weaken by blast
  from LazyPlus.prems obtain s1 where s1: "s1 \<in> set (ms r s)"
      "s' \<in> set (repeat_lazy (ms r) (length (rest s1)) s1)"
    by auto
  from ext_trans [OF LazyPlus.IH [OF s1(1)] repeat_lazy_ext [of "ms r", OF f s1(2)]]
  show ?case by simp
next
  case (Times n r)
  from repeat_times_ext [of "ms r" "bound r" s' n s] Times.IH Times.prems
  show ?case by simp
next
  case (Group i r)
  from Group.prems obtain s1 where "s1 \<in> set (ms r s)" "s' = set_cap i s s1"
    by auto
  then show ?case
    using set_cap_ext [OF Group.IH] by simp
qed

lemma exec_ext: "exec r s = Some s' \<Longrightarrow> ext (bound r) s s'"
  by (rule ms_ext) (auto simp: exec_def split: list.splits)

lemma search_exec:
  "search r pv s = Some (b, st) \<Longrightarrow>
     \<exists>pv'. exec r (MState (drop (length b) s) pv' []) = Some st \<and> b = take (length b) s
            \<and> length b \<le> length s"
proof (induction s arbitrary: pv b)
  case Nil
  then show ?case by auto
next
  case (Cons c cs)
  show ?case
  proof (cases "exec r (MState (c # cs) pv [])")
    case (Some st')
    with Cons.prems show ?thesis by auto
  next
    case None
    with Cons.prems obtain b' where b': "search r (Some c) cs = Some (b', st)" "b = c # b'"
      by auto
    from Cons.IH [OF b'(1)] b'(2) show ?thesis by auto
  qed
qed

lemma str_match_bound:
  assumes "str_match s r = Some m" "i \<in> bound r"
  shows "\<exists>t. grp m i = Some t"
proof -
  from assms(1) obtain b st where bst: "search r None s = Some (b, st)"
      and m: "m = (0, take (length s - length b - length (rest st)) (drop (length b) s)) # caps st"
    by (auto simp: str_match_def split: option.splits)
  from search_exec [OF bst] obtain pv' where
    "exec r (MState (drop (length b) s) pv' []) = Some st" by blast
  from exec_ext [OF this] assms(2) have "i \<in> fst ` set (caps st)"
    by (auto simp: ext_def)
  then have "map_of (caps st) i \<noteq> None"
    by (simp add: map_of_eq_None_iff)
  then show ?thesis
    by (auto simp: grp_def m)
qed



text \<open>
  The text a match reports at index 0 is the text the pattern was run over, and the
  groups are those of that run.
\<close>

lemma str_match_exec:
  assumes "str_match s r = Some m"
  shows "\<exists>u pv st. exec r (MState (u @ rest st) pv []) = Some st
           \<and> m = (0, u) # caps st
           \<and> prev st = (if u = [] then pv else Some (last u))"
proof -
  from assms obtain b st where bst: "search r None s = Some (b, st)"
      and m: "m = (0, take (length s - length b - length (rest st)) (drop (length b) s)) # caps st"
    by (auto simp: str_match_def split: option.splits)
  from search_exec [OF bst] obtain pv' where
    ex: "exec r (MState (drop (length b) s) pv' []) = Some st" and len: "length b \<le> length s"
    by blast
  from exec_ext [OF ex] obtain u where u: "drop (length b) s = u @ rest st"
      and pr: "prev st = (if u = [] then pv' else Some (last u))"
    by (auto simp: ext_def)
  then have "length s - length b = length u + length (rest st)"
    by (metis length_append length_drop)
  then have "take (length s - length b - length (rest st)) (drop (length b) s) = u"
    by (simp add: u)
  with m have m': "m = (0, u) # caps st"
    by simp
  from ex u have "exec r (MState (u @ rest st) pv' []) = Some st"
    by simp
  with m' pr show ?thesis
    by blast
qed





lemma bound_patterns:
  "1 \<in> bound re_edu" "2 \<in> bound re_edu"
  "1 \<in> bound re_title" "2 \<in> bound re_title"
  "1 \<in> bound re_simple" "2 \<in> bound re_simple"
  by (simp_all add: re_edu_def re_title_def re_simple_def seqs_def lits_def)


lemma title_company_total: "\<exists>r. title_company l = Inr r"
proof (cases "str_match l re_title")
  case (Some m)
  from str_match_bound [OF Some bound_patterns(3)] str_match_bound [OF Some bound_patterns(4)]
  obtain t c where "grp m 1 = Some t" "grp m 2 = Some c"
    by blast
  with Some show ?thesis
    by (simp add: title_company_def trim_group_def)
next
  case None
  show ?thesis
  proof (cases "str_match l re_simple")
    case None
    with \<open>str_match l re_title = None\<close> show ?thesis
      by (simp add: title_company_def)
  next
    case (Some m)
    from str_match_bound [OF Some bound_patterns(5)] str_match_bound [OF Some bound_patterns(6)]
    obtain t c where "grp m 1 = Some t" "grp m 2 = Some c"
      by blast
    with Some \<open>str_match l re_title = None\<close> show ?thesis
      by (simp add: title_company_def trim_group_def)
  qed
qed

lemma title_company_None:
  "title_company l = Inr None \<longleftrightarrow> str_match l re_title = None \<and> str_match l re_simple = None"
proof (cases "str_match l re_title")
  case (Some m)
  from str_match_bound [OF Some bound_patterns(3)] str_match_bound [OF Some bound_patterns(4)]
  obtain t c where "grp m 1 = Some t" "grp m 2 = Some c"
    by blast
  with Some show ?thesis
    by (simp add: title_company_def trim_group_def)
next
  case None
  show ?thesis
  proof (cases "str_match l re_simple")
    case None
    with \<open>str_match l re_title = None\<close> show ?thesis
      by (simp add: title_company_def)
  next
    case (Some m)
    from str_match_bound [OF Some bound_patterns(5)] str_match_bound [OF Some bound_patterns(6)]
    obtain t c where "grp m 1 = Some t" "grp m 2 = Some c"
      by blast
    with Some \<open>str_match l re_title = None\<close> show ?thesis
      by (simp add: title_company_def trim_group_def)
  qed
qed

lemma block_entry_total: "\<exists>r. block_entry b = Inr r"
proof -
  obtain tc where "title_company (hd (block_lines b)) = Inr tc"
    using title_company_total by blast
  then show ?thesis
    by (simp add: block_entry_def Let_def split: option.splits prod.splits)
qed




section \<open>Sorting by rank\<close>

lemma insert_by_key:
  "insert_by (\<lambda>a b. k b - k a) x xs = insort_key (\<lambda>e. - k e) x xs"
  for k :: "'a \<Rightarrow> int"
  by (induction xs) auto

lemma js_sort_key:
  "js_sort (\<lambda>a b. k b - k a) xs = sort_key (\<lambda>e. - k e) xs"
  for k :: "'a \<Rightarrow> int"
  by (induction xs) (simp_all add: js_sort_def insert_by_key)

lemma js_sort_descending:
  "sorted_wrt (\<lambda>a b. k b \<le> k a) (js_sort (\<lambda>a b. k b - k a) xs)"
  for k :: "'a \<Rightarrow> int"
proof -
  have "sorted (map (\<lambda>e. - k e) (sort_key (\<lambda>e. - k e) xs))"
    by (rule sorted_sort_key)
  then show ?thesis
    by (simp add: js_sort_key sorted_map)
qed

lemma js_sort_stable:
  "filter (\<lambda>e. k e = r) (js_sort (\<lambda>a b. k b - k a) xs) = filter (\<lambda>e. k e = r) xs"
  for k :: "'a \<Rightarrow> int"
proof -
  have "filter (\<lambda>e. - k e = - r) (sort_key (\<lambda>e. - k e) xs) = filter (\<lambda>e. - k e = - r) xs"
    by (rule sort_key_stable)
  then show ?thesis
    by (simp add: js_sort_key)
qed

lemma js_sort_idem:
  "js_sort (\<lambda>a b. k b - k a) (js_sort (\<lambda>a b. k b - k a) xs) = js_sort (\<lambda>a b. k b - k a) xs"
  for k :: "'a \<Rightarrow> int"
  by (simp add: js_sort_key sort_key_id_if_sorted)

lemma js_sort_mset:
  "mset (js_sort (\<lambda>a b. k b - k a) xs) = mset xs"
  for k :: "'a \<Rightarrow> int"
  by (simp add: js_sort_key)

lemma rank_degree:
  "degree e = Some ''PhD'' \<Longrightarrow> getEducationRank e = 5"
  "degree e = Some ''MBA'' \<Longrightarrow> getEducationRank e = 4"
  "degree e = Some ''BA'' \<Longrightarrow> getEducationRank e = 3"
  by (simp_all add: getEducationRank_def rank_with_def or_empty_def toLowerCase_def
      toLowerChar_def startsWith_def)

section \<open>The date normalizer\<close>

text \<open>
  C6.  \<open>parseDates\<close> reads the period of an entry under both namings.  The start year is
  the year under \<open>startDate\<close> when there is one and the year under \<open>start\<close> otherwise,
  and likewise the end year under \<open>endDate\<close> and \<open>end\<close>; each may be absent.
  \<open>isCurrent\<close> holds exactly when neither \<open>endDate\<close> nor \<open>end\<close> is present.
\<close>

theorem parseDates_contract:
  "(\<forall>y. year_of (startDate (period_of entry)) = Some y \<longrightarrow>
        startYear (parseDates entry) = Some y)
   \<and> (year_of (startDate (period_of entry)) = None \<longrightarrow>
        startYear (parseDates entry) = year_of (tp_start (period_of entry)))
   \<and> (\<forall>y. year_of (endDate (period_of entry)) = Some y \<longrightarrow>
        endYear (parseDates entry) = Some y)
   \<and> (year_of (endDate (period_of entry)) = None \<longrightarrow>
        endYear (parseDates entry) = year_of (tp_end (period_of entry)))
   \<and> (isCurrent (parseDates entry) \<longleftrightarrow>
        endDate (period_of entry) = None \<and> tp_end (period_of entry) = None)"
  by (simp add: parseDates_def nullish_def Let_def)

theorem parseDates_contract_witness:
  "startYear (parseDates
     \<lparr>companyName = Some ''Acme'', pos_title = None,
      timePeriod = None,
      dateRange = Some \<lparr>startDate = None, endDate = None,
                        tp_start = Some \<lparr>year = Some 2019, month = Some 4\<rparr>,
                        tp_end = Some \<lparr>year = Some 2021, month = None\<rparr>\<rparr>,
      pos_company = None\<rparr>) = Some 2019
   \<and> endYear (parseDates
     \<lparr>companyName = Some ''Acme'', pos_title = None,
      timePeriod = None,
      dateRange = Some \<lparr>startDate = None, endDate = None,
                        tp_start = Some \<lparr>year = Some 2019, month = Some 4\<rparr>,
                        tp_end = Some \<lparr>year = Some 2021, month = None\<rparr>\<rparr>,
      pos_company = None\<rparr>) = Some 2021
   \<and> \<not> isCurrent (parseDates
     \<lparr>companyName = Some ''Acme'', pos_title = None,
      timePeriod = None,
      dateRange = Some \<lparr>startDate = None, endDate = None,
                        tp_start = Some \<lparr>year = Some 2019, month = Some 4\<rparr>,
                        tp_end = Some \<lparr>year = Some 2021, month = None\<rparr>\<rparr>,
      pos_company = None\<rparr>)"
  using parseDates_contract [of
     "\<lparr>companyName = Some ''Acme'', pos_title = None,
      timePeriod = None,
      dateRange = Some \<lparr>startDate = None, endDate = None,
                        tp_start = Some \<lparr>year = Some 2019, month = Some 4\<rparr>,
                        tp_end = Some \<lparr>year = Some 2021, month = None\<rparr>\<rparr>,
      pos_company = None\<rparr>"]
  by (simp add: period_of_def nullish_def year_of_def)

section \<open>The education filter\<close>

text \<open>
  C7.  When some entry is not high-school-equivalent, the filter returns exactly the
  entries that are not, in their order, and no high-school entry survives; when every
  entry is high-school-equivalent it returns the list as it is.  The ranking that
  follows only reorders what the filter returned.
\<close>

theorem high_school_filter:
  "((\<exists>e \<in> set es. \<not> isHighSchool e) \<longrightarrow>
      filter_education es = filter (\<lambda>e. \<not> isHighSchool e) es
      \<and> (\<forall>e \<in> set es. isHighSchool e \<longrightarrow> e \<notin> set (filter_education es)))
   \<and> ((\<forall>e \<in> set es. isHighSchool e) \<longrightarrow> filter_education es = es)
   \<and> mset (screen_education es) = mset (filter_education es)"
proof -
  have a: "(\<exists>e \<in> set es. \<not> isHighSchool e) \<Longrightarrow> collegeEducation es \<noteq> []"
    by (auto simp: collegeEducation_def filter_empty_conv)
  have b: "(\<forall>e \<in> set es. isHighSchool e) \<Longrightarrow> collegeEducation es = []"
    by (auto simp: collegeEducation_def)
  have c: "mset (screen_education es) = mset (filter_education es)"
    by (simp add: screen_education_def rank_education_def js_sort_mset)
  from a b c show ?thesis
    by (auto simp: filter_education_def collegeEducation_def)
qed

lemma isHighSchool_examples:
  "isHighSchool \<lparr>school = Some ''Lincoln High School'', degree = Some ''Diploma'',
                 field = None, edu_start = None, edu_end = None\<rparr>"
  "isHighSchool \<lparr>school = Some ''Raffles Institution'', degree = Some ''GCSE'',
                 field = None, edu_start = None, edu_end = None\<rparr>"
  "\<not> isHighSchool \<lparr>school = Some ''MIT'', degree = Some ''BS'',
                   field = None, edu_start = None, edu_end = None\<rparr>"
  by (simp_all add: isHighSchool_def or_empty_def toLowerCase_def toLowerChar_def
      startsWith_def schoolWords_def degreeWords_def emdash_def)

theorem high_school_filter_witness:
  "filter_education
     [\<lparr>school = Some ''Lincoln High School'', degree = Some ''Diploma'',
       field = None, edu_start = None, edu_end = None\<rparr>,
      \<lparr>school = Some ''MIT'', degree = Some ''BS'',
       field = None, edu_start = None, edu_end = None\<rparr>]
   = [\<lparr>school = Some ''MIT'', degree = Some ''BS'',
       field = None, edu_start = None, edu_end = None\<rparr>]
   \<and> filter_education
     [\<lparr>school = Some ''Lincoln High School'', degree = Some ''Diploma'',
       field = None, edu_start = None, edu_end = None\<rparr>,
      \<lparr>school = Some ''Raffles Institution'', degree = Some ''GCSE'',
       field = None, edu_start = None, edu_end = None\<rparr>]
   = [\<lparr>school = Some ''Lincoln High School'', degree = Some ''Diploma'',
       field = None, edu_start = None, edu_end = None\<rparr>,
      \<lparr>school = Some ''Raffles Institution'', degree = Some ''GCSE'',
       field = None, edu_start = None, edu_end = None\<rparr>]"
  using
    high_school_filter [of
      "[\<lparr>school = Some ''Lincoln High School'', degree = Some ''Diploma'',
         field = None, edu_start = None, edu_end = None\<rparr>,
        \<lparr>school = Some ''MIT'', degree = Some ''BS'',
         field = None, edu_start = None, edu_end = None\<rparr>]"]
    high_school_filter [of
      "[\<lparr>school = Some ''Lincoln High School'', degree = Some ''Diploma'',
         field = None, edu_start = None, edu_end = None\<rparr>,
        \<lparr>school = Some ''Raffles Institution'', degree = Some ''GCSE'',
         field = None, edu_start = None, edu_end = None\<rparr>]"]
  by (simp add: isHighSchool_examples)

section \<open>The education ranking\<close>

text \<open>
  C8.  The ranking puts the entries in descending order of \<open>getEducationRank\<close>; it is a
  rearrangement of its input in which the entries of each rank keep their input order;
  ranking a ranked list changes nothing; and entries with the degrees PhD, BA, MBA, in
  that order, come out as PhD, MBA, BA.
\<close>

theorem education_ranking_stable_idempotent:
  "sorted_wrt (\<lambda>a b. getEducationRank b \<le> getEducationRank a) (rank_education es)
   \<and> mset (rank_education es) = mset es
   \<and> (\<forall>r. filter (\<lambda>e. getEducationRank e = r) (rank_education es)
            = filter (\<lambda>e. getEducationRank e = r) es)
   \<and> rank_education (rank_education es) = rank_education es
   \<and> (degree p = Some ''PhD'' \<and> degree b = Some ''BA'' \<and> degree m = Some ''MBA''
        \<longrightarrow> rank_education [p, b, m] = [p, m, b])"
proof -
  have "degree p = Some ''PhD'' \<and> degree b = Some ''BA'' \<and> degree m = Some ''MBA''
        \<longrightarrow> rank_education [p, b, m] = [p, m, b]"
    by (simp add: rank_education_def js_sort_def rank_degree)
  then show ?thesis
    unfolding rank_education_def
    using js_sort_descending [of getEducationRank es] js_sort_mset [of getEducationRank es]
      js_sort_stable [of getEducationRank _ es] js_sort_idem [of getEducationRank es]
    by simp
qed

theorem education_ranking_stable_idempotent_witness:
  "rank_education
     [\<lparr>school = None, degree = Some ''PhD'', field = None, edu_start = None, edu_end = None\<rparr>,
      \<lparr>school = None, degree = Some ''BA'', field = None, edu_start = None, edu_end = None\<rparr>,
      \<lparr>school = None, degree = Some ''MBA'', field = None, edu_start = None, edu_end = None\<rparr>]
   = [\<lparr>school = None, degree = Some ''PhD'', field = None, edu_start = None, edu_end = None\<rparr>,
      \<lparr>school = None, degree = Some ''MBA'', field = None, edu_start = None, edu_end = None\<rparr>,
      \<lparr>school = None, degree = Some ''BA'', field = None, edu_start = None, edu_end = None\<rparr>]"
  using education_ranking_stable_idempotent [of "[]"
      "\<lparr>school = None, degree = Some ''PhD'', field = None, edu_start = None, edu_end = None\<rparr>"
      "\<lparr>school = None, degree = Some ''BA'', field = None, edu_start = None, edu_end = None\<rparr>"
      "\<lparr>school = None, degree = Some ''MBA'', field = None, edu_start = None, edu_end = None\<rparr>"]
  by simp

section \<open>Experience blocks\<close>

lemma find_date_line_None:
  "find_date_line ls = None \<longleftrightarrow> \<not> (\<exists>l \<in> set ls. regex_test re_date_test l)"
  by (auto simp: find_date_line_def find_None_iff)

lemma find_date_line_Some:
  "find_date_line ls = Some d \<Longrightarrow> d \<in> set ls \<and> regex_test re_date_test d"
  by (auto simp: find_date_line_def find_Some_iff)

text \<open>
  C10.  A block contributes an entry only if it has at least two non-blank lines, its
  first line matches the bracketed or the plain title pattern, and one of its lines
  matches the date-range pattern.  A block with fewer than two non-blank lines, or with no
  line matching the date-range pattern, yields no entry and no error, and the loop goes on
  as if the block were not there.  No block raises an error.
\<close>

theorem block_contributes_only_when:
  "(\<forall>em. block_entry b = Inr (Some em) \<longrightarrow>
        2 \<le> length (block_lines b)
        \<and> (str_match (hd (block_lines b)) re_title \<noteq> None
             \<or> str_match (hd (block_lines b)) re_simple \<noteq> None)
        \<and> (\<exists>l \<in> set (block_lines b). regex_test re_date_test l))
   \<and> (length (block_lines b) < 2 \<or> \<not> (\<exists>l \<in> set (block_lines b). regex_test re_date_test l) \<longrightarrow>
        block_entry b = Inr None \<and> parse_blocks (b # bs) st = parse_blocks bs st)
   \<and> (\<exists>r. block_entry b = Inr r)"
proof -
  obtain tc where tc: "title_company (hd (block_lines b)) = Inr tc"
    using title_company_total by blast
  have one: "2 \<le> length (block_lines b)
        \<and> (str_match (hd (block_lines b)) re_title \<noteq> None
             \<or> str_match (hd (block_lines b)) re_simple \<noteq> None)
        \<and> (\<exists>l \<in> set (block_lines b). regex_test re_date_test l)"
    if em: "block_entry b = Inr (Some em)" for em
  proof -
    from em have len: "2 \<le> length (block_lines b)"
      by (auto simp: block_entry_def Let_def split: if_splits)
    from em tc have "tc \<noteq> None"
      by (cases tc) (auto simp: block_entry_def Let_def split: if_splits)
    with tc have ti: "str_match (hd (block_lines b)) re_title \<noteq> None
             \<or> str_match (hd (block_lines b)) re_simple \<noteq> None"
      using title_company_None [of "hd (block_lines b)"] by auto
    from em tc have "find_date_line (block_lines b) \<noteq> None"
      by (auto simp: block_entry_def Let_def split: if_splits option.splits)
    then have "\<exists>l \<in> set (block_lines b). regex_test re_date_test l"
      by (simp add: find_date_line_None)
    with len ti show ?thesis by blast
  qed
  have two: "block_entry b = Inr None"
    if "length (block_lines b) < 2 \<or> \<not> (\<exists>l \<in> set (block_lines b). regex_test re_date_test l)"
  proof -
    from that have "length (block_lines b) < 2 \<or> find_date_line (block_lines b) = None"
      by (simp add: find_date_line_None)
    with tc show ?thesis
      by (auto simp: block_entry_def Let_def split: option.splits)
  qed
  have three: "\<exists>r. block_entry b = Inr r"
    by (rule block_entry_total)
  from one two three show ?thesis
    by simp
qed

theorem block_contributes_only_when_witness:
  "(\<exists>l \<in> set (block_lines ''Engineer at Acme\<newline>Jun 2021 - Present''). regex_test re_date_test l)
   \<and> block_entry ''Engineer at Acme\<newline>no dates here'' = Inr None
   \<and> block_entry ''Engineer at Acme'' = Inr None"
proof -
  have h1: "block_entry ''Engineer at Acme\<newline>Jun 2021 - Present'' =
      Inr (Some (\<lparr>company = Some ''Acme'', title = Some ''Engineer'', exp_start = Some 2021,
                   exp_end = None, current = True\<rparr>, Some 6))"
    by code_simp
  have h2: "\<not> (\<exists>l \<in> set (block_lines ''Engineer at Acme\<newline>no dates here'').
                 regex_test re_date_test l)"
    by code_simp
  have h3: "length (block_lines ''Engineer at Acme'') < 2"
    by code_simp
  from block_contributes_only_when [of "''Engineer at Acme\<newline>Jun 2021 - Present''" "[]" initial_state] h1
  have c1: "\<exists>l \<in> set (block_lines ''Engineer at Acme\<newline>Jun 2021 - Present'').
              regex_test re_date_test l"
    by blast
  from block_contributes_only_when [of "''Engineer at Acme\<newline>no dates here''" "[]" initial_state] h2
  have c2: "block_entry ''Engineer at Acme\<newline>no dates here'' = Inr None"
    by blast
  from block_contributes_only_when [of "''Engineer at Acme''" "[]" initial_state] h3
  have c3: "block_entry ''Engineer at Acme'' = Inr None"
    by blast
  from c1 c2 c3 show ?thesis by blast
qed







section \<open>Current entries and their end year\<close>

text \<open>
  In the \<open>/screen\<close> handler every entry flagged current has no end year: the handler
  writes \<open>end: isCurrent ? null : endYear\<close>.
\<close>

lemma screen_position_current_end:
  "\<forall>e \<in> set (sc_experiences st). current e \<longrightarrow> exp_end e = None \<Longrightarrow>
   \<forall>e \<in> set (sc_experiences (screen_position exp st)). current e \<longrightarrow> exp_end e = None"
  by (auto simp: screen_position_def Let_def)

lemma screen_positions_current_end:
  "\<forall>e \<in> set (sc_experiences st). current e \<longrightarrow> exp_end e = None \<Longrightarrow>
   \<forall>e \<in> set (sc_experiences (screen_positions ps st)). current e \<longrightarrow> exp_end e = None"
proof (induction ps arbitrary: st)
  case Nil
  then show ?case by simp
next
  case (Cons p ps)
  from Cons.IH [OF screen_position_current_end [OF Cons.prems]] show ?case
    by simp
qed

text \<open>
  In the free-text parser an entry that is current without the \<open>(Current)\<close> marker
  has no end year, or the end year zero.
\<close>

lemma exa_unmarked_current_end:
  assumes "block_entry b = Inr (Some (e, mo))"
    and "\<not> str_includes (hd (block_lines b)) ''(Current)''"
    and "current e"
  shows "exp_end e = None \<or> exp_end e = Some 0"
proof -
  from assms(1) obtain m where "exp_end e = endYear_of m"
      "current e = isActuallyCurrent (str_includes (hd (block_lines b)) ''(Current)'') m"
    by (auto simp: block_entry_def Let_def split: if_splits option.splits sum.splits)
  with assms(2,3) show ?thesis
    by (auto simp: isActuallyCurrent_def falsy_num_def endYear_of_def)
qed

text \<open>
  C1.  The free-text parser keeps the end year it parsed also when the \<open>(Current)\<close>
  marker makes the entry current: the block below yields an entry that is current and
  ends in 2020.
\<close>

theorem exa_current_entry_with_end_year:
  "exa_profile ''## Experience\<newline>### Engineer at Acme (Current)\<newline>Jan 2018 - Dec 2020'' =
     Inr \<lparr>education = [],
          exa_experiences =
            [\<lparr>company = Some ''Acme'', title = Some ''Engineer'', exp_start = Some 2018,
              exp_end = Some 2020, current = True\<rparr>],
          current_company_name = Some ''Acme'',
          position_start = Some \<lparr>year = Some 2018, month = Some 1\<rparr>\<rparr>"
  by code_simp

section \<open>The designated current company\<close>

text \<open>
  Once a current company with a name is chosen in the \<open>/screen\<close> handler, no later
  position changes it; and the first current position is the one chosen when it has a
  name.
\<close>

lemma screen_position_kept:
  assumes "\<not> falsy_str (sc_currentCompany st)"
  shows "sc_currentCompany (screen_position exp st) = sc_currentCompany st
         \<and> currentCompanyUniversalName (screen_position exp st) = currentCompanyUniversalName st
         \<and> sc_currentPositionStart (screen_position exp st) = sc_currentPositionStart st"
  using assms by (simp add: screen_position_def Let_def)

lemma screen_positions_kept:
  "\<not> falsy_str (sc_currentCompany st) \<Longrightarrow>
   sc_currentCompany (screen_positions ps st) = sc_currentCompany st
   \<and> currentCompanyUniversalName (screen_positions ps st) = currentCompanyUniversalName st
   \<and> sc_currentPositionStart (screen_positions ps st) = sc_currentPositionStart st"
proof (induction ps arbitrary: st)
  case Nil
  show ?case by simp
next
  case (Cons p ps)
  from screen_position_kept [OF Cons.prems, of p]
  have k: "sc_currentCompany (screen_position p st) = sc_currentCompany st"
    "currentCompanyUniversalName (screen_position p st) = currentCompanyUniversalName st"
    "sc_currentPositionStart (screen_position p st) = sc_currentPositionStart st"
    by simp_all
  with Cons.prems have "\<not> falsy_str (sc_currentCompany (screen_position p st))"
    by simp
  from Cons.IH [OF this] k show ?case
    by simp
qed

lemma screen_positions_skip:
  "\<forall>p \<in> set pre. \<not> isCurrent (parseDates p) \<Longrightarrow>
   sc_currentCompany (screen_positions pre st) = sc_currentCompany st
   \<and> currentCompanyUniversalName (screen_positions pre st) = currentCompanyUniversalName st
   \<and> sc_currentPositionStart (screen_positions pre st) = sc_currentPositionStart st"
  by (induction pre arbitrary: st) (simp_all add: screen_position_def Let_def)

lemma screen_positions_append:
  "screen_positions (xs @ ys) st = screen_positions ys (screen_positions xs st)"
  by (induction xs arbitrary: st) simp_all

lemma screen_first_named_current:
  assumes "\<forall>q \<in> set pre. \<not> isCurrent (parseDates q)"
    and "isCurrent (parseDates p)" and "\<not> falsy_str (companyName p)"
  shows "sc_currentCompany (screen_positions (pre @ p # post) screen_initial) = companyName p
         \<and> sc_currentPositionStart (screen_positions (pre @ p # post) screen_initial)
             = nullish (startDate (period_of p)) (tp_start (period_of p))"
proof -
  let ?st = "screen_positions pre screen_initial"
  from screen_positions_skip [OF assms(1), of screen_initial]
  have "sc_currentCompany ?st = None"
    by (simp add: screen_initial_def)
  with assms(2) have p: "sc_currentCompany (screen_position p ?st) = companyName p"
    "sc_currentPositionStart (screen_position p ?st)
       = nullish (startDate (period_of p)) (tp_start (period_of p))"
    by (simp_all add: screen_position_def Let_def falsy_str_def)
  with assms(3) have "\<not> falsy_str (sc_currentCompany (screen_position p ?st))"
    by simp
  from screen_positions_kept [OF this, of post] p show ?thesis
    by (simp add: screen_positions_append)
qed

text \<open>
  C5.  The loops test \<open>!currentCompany\<close> to see whether a current company was already
  chosen.  A first current entry whose company name is absent or empty leaves that test
  true, and the next current entry takes its place, with its \<open>position_start\<close>; the
  command-line tool, which uses \<open>find\<close>, keeps the first.
\<close>

theorem first_current_entry_overridden:
  "sc_currentCompany (screen_positions
     [\<lparr>companyName = None, pos_title = Some ''Founder'',
       timePeriod = Some \<lparr>startDate = Some \<lparr>year = Some 2020, month = Some 3\<rparr>, endDate = None,
                          tp_start = None, tp_end = None\<rparr>,
       dateRange = None, pos_company = None\<rparr>,
      \<lparr>companyName = Some ''Beta'', pos_title = Some ''Advisor'',
       timePeriod = Some \<lparr>startDate = Some \<lparr>year = Some 2019, month = Some 7\<rparr>, endDate = None,
                          tp_start = None, tp_end = None\<rparr>,
       dateRange = None, pos_company = None\<rparr>] screen_initial) = Some ''Beta''
   \<and> sc_currentPositionStart (screen_positions
     [\<lparr>companyName = None, pos_title = Some ''Founder'',
       timePeriod = Some \<lparr>startDate = Some \<lparr>year = Some 2020, month = Some 3\<rparr>, endDate = None,
                          tp_start = None, tp_end = None\<rparr>,
       dateRange = None, pos_company = None\<rparr>,
      \<lparr>companyName = Some ''Beta'', pos_title = Some ''Advisor'',
       timePeriod = Some \<lparr>startDate = Some \<lparr>year = Some 2019, month = Some 7\<rparr>, endDate = None,
                          tp_start = None, tp_end = None\<rparr>,
       dateRange = None, pos_company = None\<rparr>] screen_initial)
      = Some \<lparr>year = Some 2019, month = Some 7\<rparr>
   \<and> cli_current
     [\<lparr>companyName = None, pos_title = Some ''Founder'',
       timePeriod = Some \<lparr>startDate = Some \<lparr>year = Some 2020, month = Some 3\<rparr>, endDate = None,
                          tp_start = None, tp_end = None\<rparr>,
       dateRange = None, pos_company = None\<rparr>,
      \<lparr>companyName = Some ''Beta'', pos_title = Some ''Advisor'',
       timePeriod = Some \<lparr>startDate = Some \<lparr>year = Some 2019, month = Some 7\<rparr>, endDate = None,
                          tp_start = None, tp_end = None\<rparr>,
       dateRange = None, pos_company = None\<rparr>]
      = Some \<lparr>companyName = None, pos_title = Some ''Founder'',
       timePeriod = Some \<lparr>startDate = Some \<lparr>year = Some 2020, month = Some 3\<rparr>, endDate = None,
                          tp_start = None, tp_end = None\<rparr>,
       dateRange = None, pos_company = None\<rparr>
   \<and> exa_profile ''## Experience\<newline>### Engineer at [<web_link>]\<newline>Jan 2020 - Present\<newline>### Advisor at Beta\<newline>Jul 2019 - Present'' =
     Inr \<lparr>education = [],
          exa_experiences =
            [\<lparr>company = Some [], title = Some ''Engineer'', exp_start = Some 2020,
              exp_end = None, current = True\<rparr>,
             \<lparr>company = Some ''Beta'', title = Some ''Advisor'', exp_start = Some 2019,
              exp_end = None, current = True\<rparr>],
          current_company_name = Some ''Beta'',
          position_start = Some \<lparr>year = Some 2019, month = Some 7\<rparr>\<rparr>"
  by code_simp

section \<open>A closed date range\<close>

text \<open>
  The date pattern started on \<open>Jan 2018 - Dec 2020\<close> reads its groups off these
  characters alone, whatever follows them.
\<close>

lemma date_exec:
  "exec re_date (MState (''Jan 2018 - Dec 2020'' @ post) pv []) =
     Some (MState post (Some CHR ''0'')
       [(3, ''Dec 2020''), (5, ''2020''), (4, ''Dec''), (2, ''2018''), (1, ''Jan'')])"
  by (simp add: exec_def re_date_def seqs_def lits_def set_cap_def progress_def
      isWhiteSpace_def eval_nat_numeral)

lemma date_groups:
  assumes "str_match d re_date = Some m" "grp m 0 = Some ''Jan 2018 - Dec 2020''"
  shows "m = [(0, ''Jan 2018 - Dec 2020''), (3, ''Dec 2020''), (5, ''2020''), (4, ''Dec''),
              (2, ''2018''), (1, ''Jan'')]"
proof -
  from str_match_exec [OF assms(1)] obtain u pv st where
    ex: "exec re_date (MState (u @ rest st) pv []) = Some st" and m: "m = (0, u) # caps st"
    by blast
  from assms(2) m have "u = ''Jan 2018 - Dec 2020''"
    by (simp add: grp_def)
  with ex date_exec [of "rest st" pv] have "caps st =
      [(3, ''Dec 2020''), (5, ''2020''), (4, ''Dec''), (2, ''2018''), (1, ''Jan'')]"
    by (metis mstate.sel(3) option.inject)
  with m \<open>u = _\<close> show ?thesis
    by simp
qed

lemma parseInt_years: "parseInt ''2018'' = Some 2018" "parseInt ''2020'' = Some 2020"
  by (simp_all add: parseInt_def digits_value_def digit_value_def isWhiteSpace_def)

text \<open>
  C3, as the code has it.  For a block that yields an entry, if the date range matched
  on the block's date line (the leftmost match on the first line that has one) is
  \<open>Jan 2018 - Dec 2020\<close> and the first line carries no \<open>(Current)\<close> marker, then the
  entry starts in 2018, ends in 2020 and is not current.
\<close>

theorem closed_range_entry:
  assumes "block_entry b = Inr (Some (e, mo))"
    and "find_date_line (block_lines b) = Some d"
    and "str_match d re_date = Some m"
    and "grp m 0 = Some ''Jan 2018 - Dec 2020''"
    and "\<not> str_includes (hd (block_lines b)) ''(Current)''"
  shows "exp_start e = Some 2018 \<and> exp_end e = Some 2020 \<and> \<not> current e"
proof -
  from assms(1-3) have e: "exp_start e = startYear_of m" "exp_end e = endYear_of m"
      "current e = isActuallyCurrent (str_includes (hd (block_lines b)) ''(Current)'') m"
    by (auto simp: block_entry_def Let_def split: if_splits option.splits sum.splits)
  note m = date_groups [OF assms(3,4)]
  have "startYear_of m = Some 2018" "endYear_of m = Some 2020"
    by (simp_all add: m startYear_of_def endYear_of_def grp_def parseInt_years)
  moreover have "grp m 3 \<noteq> Some ''Present''"
    by (simp add: m grp_def)
  ultimately show ?thesis
    using e assms(5) by (simp add: isActuallyCurrent_def falsy_num_def)
qed

theorem closed_range_entry_witness:
  "block_entry ''Engineer at Acme\<newline>Jan 2018 - Dec 2020 - 3 yrs'' =
      Inr (Some (\<lparr>company = Some ''Acme'', title = Some ''Engineer'', exp_start = Some 2018,
                   exp_end = Some 2020, current = False\<rparr>, Some 1))
   \<and> exp_start \<lparr>company = Some ''Acme'', title = Some ''Engineer'', exp_start = Some 2018,
                   exp_end = Some 2020, current = False\<rparr> = Some 2018"
proof -
  have h1: "block_entry ''Engineer at Acme\<newline>Jan 2018 - Dec 2020 - 3 yrs'' =
      Inr (Some (\<lparr>company = Some ''Acme'', title = Some ''Engineer'', exp_start = Some 2018,
                   exp_end = Some 2020, current = False\<rparr>, Some 1))"
    by code_simp
  have h2: "find_date_line (block_lines ''Engineer at Acme\<newline>Jan 2018 - Dec 2020 - 3 yrs'')
              = Some ''Jan 2018 - Dec 2020 - 3 yrs''"
    by code_simp
  have h3: "str_match ''Jan 2018 - Dec 2020 - 3 yrs'' re_date
              = Some [(0, ''Jan 2018 - Dec 2020''), (3, ''Dec 2020''), (5, ''2020''),
                      (4, ''Dec''), (2, ''2018''), (1, ''Jan'')]"
    by code_simp
  have h4: "grp [(0, ''Jan 2018 - Dec 2020''), (3, ''Dec 2020''), (5, ''2020''),
                 (4, ''Dec''), (2, ''2018''), (1, ''Jan'')] 0 = Some ''Jan 2018 - Dec 2020''"
    by (simp add: grp_def)
  have h5: "\<not> str_includes (hd (block_lines ''Engineer at Acme\<newline>Jan 2018 - Dec 2020 - 3 yrs''))
               ''(Current)''"
    by code_simp
  from closed_range_entry [OF h1 h2 h3 h4 h5] h1 show ?thesis
    by simp
qed

text \<open>
  The claim as stated, for every block that contains the range, fails twice: the marker
  makes the entry current, and an earlier range in the block is the one that is read.
\<close>

theorem closed_range_counterexample:
  "str_includes ''Engineer at Acme (Current)\<newline>Jan 2018 - Dec 2020'' ''Jan 2018 - Dec 2020''
   \<and> block_entry ''Engineer at Acme (Current)\<newline>Jan 2018 - Dec 2020'' =
      Inr (Some (\<lparr>company = Some ''Acme'', title = Some ''Engineer'', exp_start = Some 2018,
                   exp_end = Some 2020, current = True\<rparr>, Some 1))
   \<and> str_includes ''Engineer at Acme\<newline>Jun 2021 - Present\<newline>Jan 2018 - Dec 2020''
        ''Jan 2018 - Dec 2020''
   \<and> block_entry ''Engineer at Acme\<newline>Jun 2021 - Present\<newline>Jan 2018 - Dec 2020'' =
      Inr (Some (\<lparr>company = Some ''Acme'', title = Some ''Engineer'', exp_start = Some 2021,
                   exp_end = None, current = True\<rparr>, Some 6))"
  by code_simp

section \<open>Missing sections\<close>




lemma str_includes_Cons: "str_includes cs sub \<Longrightarrow> str_includes (c # cs) sub"
  by simp














section \<open>Education lines\<close>























end
